theory Spec2Isabelle
  imports Complex_Main "HOL-Library.AList"
begin

section \<open>JavaScript values\<close>

text \<open>
  The server (\<^verbatim>\<open>src/server.js\<close>) is an Express application over the MongoDB
  driver. Its handlers move JavaScript values between the request, the store and the
  response, so the embedding starts with those values.

  A JavaScript number is an IEEE double. The model keeps \<open>NaN\<close> and the two infinities
  apart and writes a finite double as the real number it denotes. Whatever computes a
  number (an addition, reading a decimal literal) rounds the exact result to a double
  with \<open>round_double\<close> below. The sign of zero is not kept.
\<close>

datatype number = NaN | PosInf | NegInf | Fin real

subsection \<open>Rounding to a double\<close>

text \<open>The number of binary digits of a positive integer.\<close>

function bit_length :: "int \<Rightarrow> int" where
  "bit_length n = (if n \<le> 0 then 0 else 1 + bit_length (n div 2))"
  by pat_completeness auto
termination
  by (relation "measure nat") auto

declare bit_length.simps [simp del]

text \<open>For \<open>a > 0\<close>, the exponent \<open>e\<close> with \<open>2 ^ e \<le> a < 2 ^ (e + 1)\<close>.\<close>

definition floor_log2 :: "real \<Rightarrow> int" where
  "floor_log2 a =
     (if 1 \<le> a then bit_length \<lfloor>a\<rfloor> - 1
      else
        let j = bit_length \<lfloor>1 / a\<rfloor> - 1
        in if a * 2 ^ nat j = 1 then - j else - j - 1)"

definition scale2 :: "real \<Rightarrow> int \<Rightarrow> real" where
  "scale2 x e = (if 0 \<le> e then x * 2 ^ nat e else x / 2 ^ nat (- e))"

definition round_half_even :: "real \<Rightarrow> int" where
  "round_half_even t =
     (let f = \<lfloor>t\<rfloor>; r = t - of_int f
      in if r < 1 / 2 then f
         else if 1 / 2 < r then f + 1
         else if even f then f else f + 1)"

text \<open>
  Round to nearest, ties to even, in binary64: 53 binary digits, the last of them worth
  at least \<open>2 ^ - 1074\<close> (so small values lose digits and the smallest round to 0), and a
  result of \<open>2 ^ 1024\<close> or more is an infinity.
\<close>

definition round_double :: "real \<Rightarrow> number" where
  "round_double x =
     (if x = 0 then Fin 0
      else
        let a = \<bar>x\<bar>;
            q = max (floor_log2 a - 52) (- 1074);
            m = scale2 (of_int (round_half_even (scale2 a (- q)))) q
        in if 2 ^ 1024 \<le> m then (if 0 < x then PosInf else NegInf)
           else Fin (if 0 < x then m else - m))"

text \<open>
  An \<open>ObjectId\<close> is twelve bytes, kept here as the twenty-four hexadecimal digit values
  of its string form.
\<close>

datatype objectid = ObjectId "nat list"

text \<open>
  The scalar values of a request body or of a stored document. No document this server
  builds holds an array or a nested object; a JSON body could carry one, and the model
  leaves that out: the fields a handler reads are scalars.
\<close>

datatype jsval =
    Undefined
  | Null
  | Bool bool
  | Num number
  | Str string
  | Oid objectid
  | Date int

text \<open>A document, a parsed JSON body: fields in order.\<close>

type_synonym document = "(string \<times> jsval) list"

text \<open>Property access \<^verbatim>\<open>d.k\<close>: a missing property reads as \<^verbatim>\<open>undefined\<close>.\<close>

definition prop_of :: "document \<Rightarrow> string \<Rightarrow> jsval" where
  "prop_of d k = (case map_of d k of None \<Rightarrow> Undefined | Some v \<Rightarrow> v)"

text \<open>JavaScript truthiness (\<^verbatim>\<open>!x\<close> is its negation).\<close>

fun truthy :: "jsval \<Rightarrow> bool" where
  "truthy Undefined = False"
| "truthy Null = False"
| "truthy (Bool b) = b"
| "truthy (Num NaN) = False"
| "truthy (Num (Fin x)) = (x \<noteq> 0)"
| "truthy (Num _) = True"
| "truthy (Str s) = (s \<noteq> [])"
| "truthy (Oid _) = True"
| "truthy (Date _) = True"

text \<open>The operator \<^verbatim>\<open>a || b\<close>.\<close>

definition or_else :: "jsval \<Rightarrow> jsval \<Rightarrow> jsval" where
  "or_else a b = (if truthy a then a else b)"

subsection \<open>parseFloat\<close>

text \<open>
  \<^verbatim>\<open>parseFloat\<close> skips leading white space and reads the longest prefix that is a
  decimal literal: an optional sign, then \<^verbatim>\<open>Infinity\<close>, or digits with an optional
  fraction and an optional exponent. No such prefix gives \<open>NaN\<close>; otherwise the result is
  the double nearest to the value the literal denotes.
\<close>

definition is_space :: "char \<Rightarrow> bool" where
  "is_space c = (c \<in> set [CHR '' '', CHR 0x09, CHR 0x0A, CHR 0x0B, CHR 0x0C, CHR 0x0D])"

definition is_digit :: "char \<Rightarrow> bool" where
  "is_digit c = (c \<in> set ''0123456789'')"

definition digit_val :: "char \<Rightarrow> nat" where
  "digit_val c = of_char c - 48"

definition decimal :: "string \<Rightarrow> nat" where
  "decimal ds = foldl (\<lambda>a c. 10 * a + digit_val c) 0 ds"

definition scale10 :: "real \<Rightarrow> int \<Rightarrow> real" where
  "scale10 x e = (if 0 \<le> e then x * 10 ^ nat e else x / 10 ^ nat (- e))"

text \<open>The exponent part counts only when at least one digit follows the \<^verbatim>\<open>e\<close>.\<close>

definition exponent :: "string \<Rightarrow> int" where
  "exponent s =
     (case s of
        [] \<Rightarrow> 0
      | c # r \<Rightarrow>
          if c = CHR ''e'' \<or> c = CHR ''E'' then
            (case r of
               [] \<Rightarrow> 0
             | d # r' \<Rightarrow>
                 if d = CHR ''-'' then - int (decimal (takeWhile is_digit r'))
                 else if d = CHR ''+'' then int (decimal (takeWhile is_digit r'))
                 else int (decimal (takeWhile is_digit r)))
          else 0)"

definition unsigned_literal :: "string \<Rightarrow> number" where
  "unsigned_literal u =
     (if take 8 u = ''Infinity'' then PosInf
      else
        let ip = takeWhile is_digit u;
            r1 = dropWhile is_digit u;
            fp = (case r1 of [] \<Rightarrow> [] | c # r \<Rightarrow> if c = CHR ''.'' then takeWhile is_digit r else []);
            r2 = (case r1 of [] \<Rightarrow> [] | c # r \<Rightarrow> if c = CHR ''.'' then dropWhile is_digit r else r1)
        in if ip = [] \<and> fp = [] then NaN
           else round_double (scale10 (real (decimal (ip @ fp))) (exponent r2 - int (length fp))))"

definition negate :: "number \<Rightarrow> number" where
  "negate n = (case n of NaN \<Rightarrow> NaN | PosInf \<Rightarrow> NegInf | NegInf \<Rightarrow> PosInf | Fin x \<Rightarrow> Fin (- x))"

definition parseFloat_string :: "string \<Rightarrow> number" where
  "parseFloat_string s =
     (case dropWhile is_space s of
        [] \<Rightarrow> NaN
      | c # r \<Rightarrow>
          if c = CHR ''-'' then negate (unsigned_literal r)
          else if c = CHR ''+'' then unsigned_literal r
          else unsigned_literal (c # r))"

text \<open>
  \<^verbatim>\<open>parseFloat(v)\<close> converts its argument to a string first. A number prints and
  reads back as itself; \<^verbatim>\<open>true\<close>, \<^verbatim>\<open>null\<close>, \<^verbatim>\<open>undefined\<close>, the text of a
  date (it starts with a weekday name) give \<open>NaN\<close>. An ObjectId prints as its hexadecimal
  digits.
\<close>

definition hex_char :: "nat \<Rightarrow> char" where
  "hex_char n = (''0123456789abcdef'' ! (n mod 16))"

fun parseFloat :: "jsval \<Rightarrow> number" where
  "parseFloat (Str s) = parseFloat_string s"
| "parseFloat (Num n) = n"
| "parseFloat (Oid (ObjectId ds)) = parseFloat_string (map hex_char ds)"
| "parseFloat _ = NaN"

section \<open>The libraries the handlers call\<close>

subsection \<open>ObjectId\<close>

text \<open>
  \<^verbatim>\<open>ObjectId.isValid(id)\<close> on a string, as the current driver decides it: exactly
  twenty-four hexadecimal digits. \<^verbatim>\<open>new ObjectId(id)\<close> accepts the same strings and
  throws on every other one.
\<close>

datatype exn = BSONError | IllegalArguments | TypeError | DuplicateKey

definition is_hex :: "char \<Rightarrow> bool" where
  "is_hex c = (c \<in> set ''0123456789abcdefABCDEF'')"

definition hex_val :: "char \<Rightarrow> nat" where
  "hex_val c =
     (if is_digit c then of_char c - 48
      else if c \<in> set ''abcdef'' then of_char c - 87
      else of_char c - 55)"

definition isValid :: "string \<Rightarrow> bool" where
  "isValid s = (length s = 24 \<and> list_all is_hex s)"

definition new_ObjectId :: "string \<Rightarrow> exn + objectid" where
  "new_ObjectId s = (if isValid s then Inr (ObjectId (map hex_val s)) else Inl BSONError)"

subsection \<open>bcrypt\<close>

text \<open>
  The server calls \<^verbatim>\<open>bcrypt.hash(password, 10)\<close> and
  \<^verbatim>\<open>bcrypt.compare(password, hash)\<close>. What the library computes on strings (the
  Blowfish key schedule, the encoding of salt and digest) is not part of this repository
  and is a parameter of the handlers:
  \<^item> \<open>hash_string p salt\<close> is the hash string of the password \<open>p\<close> under the salt the
    library draws, which is the caller's argument here;
  \<^item> \<open>compare_string p h\<close> is the verdict on the password \<open>p\<close> against the stored
    string \<open>h\<close>, or the error the library raises on a string it cannot read as a hash.
\<close>

record bcrypt =
  hash_string :: "string \<Rightarrow> string \<Rightarrow> string"
  compare_string :: "string \<Rightarrow> string \<Rightarrow> exn + bool"

text \<open>
  Both entry points check their arguments first: a password or a hash that is not a
  string rejects the promise (\<^verbatim>\<open>Illegal arguments\<close>).
\<close>

definition bcrypt_hash :: "bcrypt \<Rightarrow> jsval \<Rightarrow> string \<Rightarrow> exn + string" where
  "bcrypt_hash bc password salt =
     (case password of
        Str p \<Rightarrow> Inr (hash_string bc p salt)
      | _ \<Rightarrow> Inl IllegalArguments)"

definition bcrypt_compare :: "bcrypt \<Rightarrow> jsval \<Rightarrow> jsval \<Rightarrow> exn + bool" where
  "bcrypt_compare bc password hashed =
     (case (password, hashed) of
        (Str p, Str h) \<Rightarrow> compare_string bc p h
      | _ \<Rightarrow> Inl IllegalArguments)"

section \<open>The document store\<close>

text \<open>
  The database maps a collection name to its documents, in insertion order. A collection
  that was never written is missing; reading it gives no documents. Every call of the
  driver is a round trip, recorded in \<open>calls\<close>.
\<close>

datatype store_call =
    FindOne string
  | Find string
  | InsertOne string
  | UpdateOne string
  | DeleteOne string
  | Aggregate string

record database =
  collections :: "string \<Rightarrow> document list option"
  calls :: "store_call list"

definition collection :: "database \<Rightarrow> string \<Rightarrow> document list" where
  "collection db c = (case collections db c of None \<Rightarrow> [] | Some ds \<Rightarrow> ds)"

definition called :: "store_call \<Rightarrow> database \<Rightarrow> database" where
  "called c db = db\<lparr>calls := calls db @ [c]\<rparr>"

text \<open>An equality filter \<^verbatim>\<open>{ k: v }\<close> on one field.\<close>

definition matches :: "string \<times> jsval \<Rightarrow> document \<Rightarrow> bool" where
  "matches q d = (map_of d (fst q) = Some (snd q))"

definition findOne :: "string \<Rightarrow> string \<times> jsval \<Rightarrow> database \<Rightarrow> document option \<times> database" where
  "findOne c q db = (find (matches q) (collection db c), called (FindOne c) db)"

definition find_all :: "string \<Rightarrow> database \<Rightarrow> document list \<times> database" where
  "find_all c db = (collection db c, called (Find c) db)"

text \<open>
  \<^verbatim>\<open>insertOne(doc)\<close>: the driver generates the \<^verbatim>\<open>_id\<close> (the argument \<open>oid\<close>), the
  store keeps it as the first field, and refuses an \<^verbatim>\<open>_id\<close> the collection already has.
\<close>

definition insertOne :: "string \<Rightarrow> objectid \<Rightarrow> document \<Rightarrow> database \<Rightarrow> (exn + unit) \<times> database" where
  "insertOne c oid d db =
     (if list_ex (matches (''_id'', Oid oid)) (collection db c)
      then (Inl DuplicateKey, called (InsertOne c) db)
      else (Inr (),
            called (InsertOne c)
              (db\<lparr>collections := (collections db)(c \<mapsto> collection db c @ [(''_id'', Oid oid) # d])\<rparr>)))"

text \<open>\<^verbatim>\<open>$set\<close>: each field is overwritten in place, or appended when the document lacks it.\<close>

definition apply_set :: "document \<Rightarrow> document \<Rightarrow> document" where
  "apply_set sets d = foldl (\<lambda>acc kv. AList.update (fst kv) (snd kv) acc) d sets"

fun update_first :: "(document \<Rightarrow> bool) \<Rightarrow> (document \<Rightarrow> document) \<Rightarrow> document list \<Rightarrow> document list" where
  "update_first P f [] = []"
| "update_first P f (d # ds) = (if P d then f d # ds else d # update_first P f ds)"

fun remove_first :: "(document \<Rightarrow> bool) \<Rightarrow> document list \<Rightarrow> document list" where
  "remove_first P [] = []"
| "remove_first P (d # ds) = (if P d then ds else d # remove_first P ds)"

text \<open>
  \<^verbatim>\<open>updateOne(filter, { $set: sets })\<close> changes the first matching document and
  returns \<^verbatim>\<open>matchedCount\<close>; \<^verbatim>\<open>deleteOne(filter)\<close> removes the first matching document
  and returns \<^verbatim>\<open>deletedCount\<close>. Neither creates a missing collection.
\<close>

definition updateOne :: "string \<Rightarrow> string \<times> jsval \<Rightarrow> document \<Rightarrow> database \<Rightarrow> nat \<times> database" where
  "updateOne c q sets db =
     (if list_ex (matches q) (collection db c)
      then (1, called (UpdateOne c)
                 (db\<lparr>collections := (collections db)(c \<mapsto> update_first (matches q) (apply_set sets) (collection db c))\<rparr>))
      else (0, called (UpdateOne c) db))"

definition deleteOne :: "string \<Rightarrow> string \<times> jsval \<Rightarrow> database \<Rightarrow> nat \<times> database" where
  "deleteOne c q db =
     (if list_ex (matches q) (collection db c)
      then (1, called (DeleteOne c)
                 (db\<lparr>collections := (collections db)(c \<mapsto> remove_first (matches q) (collection db c))\<rparr>))
      else (0, called (DeleteOne c) db))"

subsection \<open>Aggregation\<close>

text \<open>
  The two pipeline stages the server uses: \<^verbatim>\<open>{ $match: { k: { $gte: date } } }\<close>, which
  keeps the documents whose field is a date not before the bound, and
  \<^verbatim>\<open>{ $group: { _id: null, out: { $sum: "$k" } } }\<close>, which gives one document with the
  sum of the numeric values of the field (other values are skipped), and no document at
  all on an empty input. The sum is accumulated in document order, in double arithmetic:
  every number here is a double, the integer types of the store are not kept apart.
\<close>

datatype stage = Match_gte string int | Group_sum string string

fun add_number :: "number \<Rightarrow> number \<Rightarrow> number" where
  "add_number NaN _ = NaN"
| "add_number _ NaN = NaN"
| "add_number PosInf NegInf = NaN"
| "add_number NegInf PosInf = NaN"
| "add_number PosInf _ = PosInf"
| "add_number _ PosInf = PosInf"
| "add_number NegInf _ = NegInf"
| "add_number _ NegInf = NegInf"
| "add_number (Fin x) (Fin y) = round_double (x + y)"

definition sum_field :: "string \<Rightarrow> document list \<Rightarrow> number" where
  "sum_field k ds =
     foldl (\<lambda>acc d. case prop_of d k of Num n \<Rightarrow> add_number acc n | _ \<Rightarrow> acc) (Fin 0) ds"

definition date_gte :: "string \<Rightarrow> int \<Rightarrow> document \<Rightarrow> bool" where
  "date_gte k bound d = (case prop_of d k of Date t \<Rightarrow> bound \<le> t | _ \<Rightarrow> False)"

fun run_stage :: "stage \<Rightarrow> document list \<Rightarrow> document list" where
  "run_stage (Match_gte k bound) ds = filter (date_gte k bound) ds"
| "run_stage (Group_sum out k) ds =
     (if ds = [] then [] else [[(''_id'', Null), (out, Num (sum_field k ds))]])"

definition aggregate :: "string \<Rightarrow> stage list \<Rightarrow> database \<Rightarrow> document list \<times> database" where
  "aggregate c pipeline db =
     (foldl (\<lambda>ds st. run_stage st ds) (collection db c) pipeline, called (Aggregate c) db)"

text \<open>\<^verbatim>\<open>result[0]?.k\<close>: the field of the first document, \<^verbatim>\<open>undefined\<close> when there is none.\<close>

definition first_prop :: "document list \<Rightarrow> string \<Rightarrow> jsval" where
  "first_prop ds k = (case ds of [] \<Rightarrow> Undefined | d # _ \<Rightarrow> prop_of d k)"

section \<open>The request handlers\<close>

text \<open>
  What a handler sends: \<open>Message\<close> is \<^verbatim>\<open>res.status(n).json({ message })\<close>, \<open>Failed\<close> is
  the \<^verbatim>\<open>catch\<close> branch (status 500 with the message and the error caught), and the
  other constructors are the bodies of the successful responses, as the objects handed
  to \<^verbatim>\<open>res.json\<close>.
\<close>

datatype response =
    Message nat string
  | Failed string exn
  | LoginOk jsval jsval jsval
  | Documents "document list"
  | OneDocument document
  | ProductAdded document
  | ProductUpdated document
  | OrderView jsval jsval
  | Totals jsval jsval
  | SalesStats jsval jsval jsval jsval "real list"

subsection \<open>Credentials\<close>

text \<open>
  \<^verbatim>\<open>POST /register\<close>. The bcrypt library, the identifier the driver generates for the
  insert and the salt bcrypt draws are arguments.
\<close>

definition register ::
  "bcrypt \<Rightarrow> objectid \<Rightarrow> string \<Rightarrow> document \<Rightarrow> database \<Rightarrow> response \<times> database" where
  "register bc oid salt body db =
     (let name = prop_of body ''name'';
          email = prop_of body ''email'';
          password = prop_of body ''password'';
          fingerprint = prop_of body ''fingerprint''
      in if \<not> truthy name \<or> \<not> truthy email \<or> \<not> truthy password
         then (Message 400 ''Please provide all fields'', db)
         else
           (case findOne ''admin'' (''email'', email) db of
              (Some existingAdmin, db1) \<Rightarrow> (Message 400 ''Email already exists'', db1)
            | (None, db1) \<Rightarrow>
                (case bcrypt_hash bc password salt of
                   Inl e \<Rightarrow> (Failed ''Registration failed'' e, db1)
                 | Inr hashedPassword \<Rightarrow>
                     (let newAdmin =
                            [(''name'', name),
                             (''email'', email),
                             (''password'', Str hashedPassword),
                             (''fingerprint'', or_else fingerprint Null)]
                      in case insertOne ''admin'' oid newAdmin db1 of
                           (Inl e, db2) \<Rightarrow> (Failed ''Registration failed'' e, db2)
                         | (Inr _, db2) \<Rightarrow> (Message 201 ''Admin registered successfully'', db2)))))"

text \<open>\<^verbatim>\<open>POST /login\<close>.\<close>

definition login :: "bcrypt \<Rightarrow> document \<Rightarrow> database \<Rightarrow> response \<times> database" where
  "login bc body db =
     (let email = prop_of body ''email'';
          password = prop_of body ''password''
      in if \<not> truthy email \<or> \<not> truthy password
         then (Message 400 ''Email and password are required'', db)
         else
           (case findOne ''admin'' (''email'', email) db of
              (None, db1) \<Rightarrow> (Message 401 ''Invalid email or password'', db1)
            | (Some user, db1) \<Rightarrow>
                (case bcrypt_compare bc password (prop_of user ''password'') of
                   Inl e \<Rightarrow> (Failed ''Error logging in'' e, db1)
                 | Inr isPasswordValid \<Rightarrow>
                     if \<not> isPasswordValid
                     then (Message 401 ''Invalid email or password'', db1)
                     else (LoginOk (prop_of user ''_id'') (prop_of user ''email'') (prop_of user ''name''),
                           db1))))"

text \<open>
  \<^verbatim>\<open>POST /login-with-id\<close>. The body's \<^verbatim>\<open>id\<close> goes to \<^verbatim>\<open>new ObjectId\<close> unchecked:
  a string must be a well-formed identifier, a number makes the driver generate an
  identifier (the argument \<open>oid\<close>), every other value throws.
\<close>

definition ObjectId_of :: "objectid \<Rightarrow> jsval \<Rightarrow> exn + objectid" where
  "ObjectId_of oid v =
     (case v of
        Str s \<Rightarrow> new_ObjectId s
      | Num n \<Rightarrow> Inr oid
      | Oid i \<Rightarrow> Inr i
      | _ \<Rightarrow> Inl BSONError)"

definition loginWithId :: "objectid \<Rightarrow> document \<Rightarrow> database \<Rightarrow> response \<times> database" where
  "loginWithId oid body db =
     (let ident = prop_of body ''id''
      in if \<not> truthy ident
         then (Message 400 ''ID is required'', db)
         else
           (case ObjectId_of oid ident of
              Inl e \<Rightarrow> (Failed ''Error logging in'' e, db)
            | Inr i \<Rightarrow>
                (case findOne ''admin'' (''_id'', Oid i) db of
                   (None, db1) \<Rightarrow> (Message 401 ''Invalid ID'', db1)
                 | (Some user, db1) \<Rightarrow>
                     (LoginOk (prop_of user ''_id'') (prop_of user ''email'') (prop_of user ''name''),
                      db1))))"

text \<open>\<^verbatim>\<open>GET /api/admins\<close>.\<close>

definition listAdmins :: "database \<Rightarrow> response \<times> database" where
  "listAdmins db = (case find_all ''admin'' db of (admins, db1) \<Rightarrow> (Documents admins, db1))"

subsection \<open>Catalog\<close>

text \<open>\<^verbatim>\<open>GET /products\<close> and \<^verbatim>\<open>GET /all/products\<close> have the same body.\<close>

definition listProducts :: "database \<Rightarrow> response \<times> database" where
  "listProducts db = (case find_all ''products'' db of (ps, db1) \<Rightarrow> (Documents ps, db1))"

text \<open>
  \<^verbatim>\<open>POST /products\<close>. The upload middleware has run: \<open>file\<close> is the path of the stored
  image (\<^verbatim>\<open>req.file.path\<close>), or \<open>None\<close> when the request carried no file, and then
  reading \<^verbatim>\<open>req.file.path\<close> throws. The driver adds the generated \<^verbatim>\<open>_id\<close> to the object
  it was given, which the response then shows.
\<close>

definition createProduct :: "objectid \<Rightarrow> string option \<Rightarrow> document \<Rightarrow> database \<Rightarrow> response \<times> database" where
  "createProduct oid file body db =
     (let name = prop_of body ''name'';
          category = prop_of body ''category'';
          price = prop_of body ''price'';
          size = prop_of body ''size'';
          description = prop_of body ''description''
      in if \<not> truthy name \<or> \<not> truthy category \<or> \<not> truthy price \<or> \<not> truthy size
         then (Message 400 ''Please provide all required fields'', db)
         else
           (case file of
              None \<Rightarrow> (Failed ''Error adding product'' TypeError, db)
            | Some path \<Rightarrow>
                (let newProduct =
                       [(''name'', name),
                        (''category'', category),
                        (''price'', Num (parseFloat price)),
                        (''size'', size),
                        (''image'', Str path),
                        (''description'', or_else description (Str []))]
                 in case insertOne ''products'' oid newProduct db of
                      (Inl e, db1) \<Rightarrow> (Failed ''Error adding product'' e, db1)
                    | (Inr _, db1) \<Rightarrow> (ProductAdded (newProduct @ [(''_id'', Oid oid)]), db1))))"

text \<open>\<^verbatim>\<open>PUT /products/:id\<close>.\<close>

definition updateProduct :: "string \<Rightarrow> document \<Rightarrow> database \<Rightarrow> response \<times> database" where
  "updateProduct ident body db =
     (let name = prop_of body ''name'';
          category = prop_of body ''category'';
          price = prop_of body ''price'';
          size = prop_of body ''size'';
          image = prop_of body ''image'';
          description = prop_of body ''description''
      in if \<not> truthy name \<or> \<not> truthy category \<or> \<not> truthy price \<or> \<not> truthy size
         then (Message 400 ''Please provide all required fields'', db)
         else
           (let updatedProduct =
                  [(''name'', name),
                   (''category'', category),
                   (''price'', Num (parseFloat price)),
                   (''size'', size),
                   (''image'', or_else image Null),
                   (''description'', or_else description (Str []))]
            in case new_ObjectId ident of
                 Inl e \<Rightarrow> (Failed ''Error updating product'' e, db)
               | Inr oid \<Rightarrow>
                   (case updateOne ''products'' (''_id'', Oid oid) updatedProduct db of
                      (matchedCount, db1) \<Rightarrow>
                        if matchedCount = 0
                        then (Message 404 ''Product not found'', db1)
                        else (ProductUpdated updatedProduct, db1))))"

text \<open>\<^verbatim>\<open>DELETE /products/:id\<close>.\<close>

definition deleteProduct :: "string \<Rightarrow> database \<Rightarrow> response \<times> database" where
  "deleteProduct ident db =
     (case new_ObjectId ident of
        Inl e \<Rightarrow> (Failed ''Error deleting product'' e, db)
      | Inr oid \<Rightarrow>
          (case deleteOne ''products'' (''_id'', Oid oid) db of
             (deletedCount, db1) \<Rightarrow>
               if deletedCount = 0
               then (Message 404 ''Product not found'', db1)
               else (Message 200 ''Product deleted successfully'', db1)))"

subsection \<open>Orders\<close>

text \<open>\<^verbatim>\<open>GET /api/orders\<close>.\<close>

definition listOrders :: "database \<Rightarrow> response \<times> database" where
  "listOrders db = (case find_all ''orders'' db of (os, db1) \<Rightarrow> (Documents os, db1))"

text \<open>\<^verbatim>\<open>GET /api/orders/:id\<close>.\<close>

definition getOrder :: "string \<Rightarrow> database \<Rightarrow> response \<times> database" where
  "getOrder ident db =
     (if \<not> isValid ident
      then (Message 400 ''Invalid order ID format'', db)
      else
        (case new_ObjectId ident of
           Inl e \<Rightarrow> (Failed ''Internal server error'' e, db)
         | Inr oid \<Rightarrow>
             (case findOne ''orders'' (''_id'', Oid oid) db of
                (None, db1) \<Rightarrow> (Message 404 ''Order not found'', db1)
              | (Some order, db1) \<Rightarrow>
                  (OrderView (prop_of order ''_id'') (prop_of order ''status''), db1))))"

text \<open>\<^verbatim>\<open>POST /api/orders/:orderId/complete\<close>.\<close>

definition completeOrder :: "string \<Rightarrow> database \<Rightarrow> response \<times> database" where
  "completeOrder orderId db =
     (if \<not> isValid orderId
      then (Message 400 ''Invalid order ID format'', db)
      else
        (case new_ObjectId orderId of
           Inl e \<Rightarrow> (Failed ''Internal server error'' e, db)
         | Inr oid \<Rightarrow>
             (case updateOne ''orders'' (''_id'', Oid oid) [(''status'', Str ''complete'')] db of
                (matchedCount, db1) \<Rightarrow>
                  if matchedCount = 0
                  then (Message 404 ''Order not found'', db1)
                  else (Message 200 ''Order status updated to complete'', db1))))"

subsection \<open>Logos\<close>

text \<open>\<^verbatim>\<open>GET /api/logos\<close>.\<close>

definition listLogos :: "database \<Rightarrow> response \<times> database" where
  "listLogos db = (case find_all ''logos'' db of (ls, db1) \<Rightarrow> (Documents ls, db1))"

text \<open>\<^verbatim>\<open>GET /api/logos/:id\<close>.\<close>

definition getLogo :: "string \<Rightarrow> database \<Rightarrow> response \<times> database" where
  "getLogo ident db =
     (if \<not> isValid ident
      then (Message 400 ''Invalid logo ID format'', db)
      else
        (case new_ObjectId ident of
           Inl e \<Rightarrow> (Failed ''Error fetching logo details'' e, db)
         | Inr oid \<Rightarrow>
             (case findOne ''logos'' (''_id'', Oid oid) db of
                (None, db1) \<Rightarrow> (Message 404 ''Logo not found'', db1)
              | (Some logo, db1) \<Rightarrow> (OneDocument logo, db1))))"

text \<open>\<^verbatim>\<open>POST /api/logos/:id/complete\<close>.\<close>

definition approveLogo :: "string \<Rightarrow> database \<Rightarrow> response \<times> database" where
  "approveLogo ident db =
     (if \<not> isValid ident
      then (Message 400 ''Invalid logo ID format'', db)
      else
        (case new_ObjectId ident of
           Inl e \<Rightarrow> (Failed ''Internal server error'' e, db)
         | Inr oid \<Rightarrow>
             (case updateOne ''logos'' (''_id'', Oid oid) [(''approval'', Bool True)] db of
                (matchedCount, db1) \<Rightarrow>
                  if matchedCount = 0
                  then (Message 404 ''Logo not found'', db1)
                  else (Message 200 ''Logo status updated to complete'', db1))))"

subsection \<open>Reporting\<close>

text \<open>\<^verbatim>\<open>GET /api/total\<close>.\<close>

definition totals :: "database \<Rightarrow> response \<times> database" where
  "totals db =
     (case aggregate ''logos'' [Group_sum ''totalPrice'' ''price''] db of
        (totalPrice, db1) \<Rightarrow>
          (case aggregate ''orders'' [Group_sum ''totalAmount'' ''totalAmount''] db1 of
             (totalAmount, db2) \<Rightarrow>
               (Totals (or_else (first_prop totalPrice ''totalPrice'') (Num (Fin 0)))
                       (or_else (first_prop totalAmount ''totalAmount'') (Num (Fin 0))),
                db2)))"

text \<open>
  \<^verbatim>\<open>GET /api/sales-stats\<close>. The clock gives \<^verbatim>\<open>Date.now()\<close> and the first instants of
  the current month and year in local time, all in milliseconds.
\<close>

record clock =
  time_now :: int
  month_start :: int
  year_start :: int

definition salesStats :: "clock \<Rightarrow> database \<Rightarrow> response \<times> database" where
  "salesStats clk db =
     (case aggregate ''orders'' [Group_sum ''totalAmount'' ''totalAmount''] db of
        (totalSales, db1) \<Rightarrow>
     (case aggregate ''orders''
             [Match_gte ''createdAt'' (time_now clk - 7 * 24 * 60 * 60 * 1000),
              Group_sum ''totalAmount'' ''totalAmount''] db1 of
        (weeklySales, db2) \<Rightarrow>
     (case aggregate ''orders''
             [Match_gte ''createdAt'' (month_start clk),
              Group_sum ''totalAmount'' ''totalAmount''] db2 of
        (monthlySales, db3) \<Rightarrow>
     (case aggregate ''orders''
             [Match_gte ''createdAt'' (year_start clk),
              Group_sum ''totalAmount'' ''totalAmount''] db3 of
        (yearlySales, db4) \<Rightarrow>
          (SalesStats
             (or_else (first_prop weeklySales ''totalAmount'') (Num (Fin 0)))
             (or_else (first_prop monthlySales ''totalAmount'') (Num (Fin 0)))
             (or_else (first_prop yearlySales ''totalAmount'') (Num (Fin 0)))
             (or_else (first_prop totalSales ''totalAmount'') (Num (Fin 0)))
             [3000, 4200, 3500, 5200, 6000, 7200, 8000, 8500, 9000, 9500, 10000, 11000],
           db4)))))"

text \<open>The \<^verbatim>\<open>salesByMonth\<close> field of a response, when it has one.\<close>

definition salesByMonth :: "response \<Rightarrow> real list option" where
  "salesByMonth r = (case r of SalesStats w m y t series \<Rightarrow> Some series | _ \<Rightarrow> None)"

section \<open>The application\<close>

text \<open>
  The routes of the API, each with its path parameter or parsed body. What the outside
  world decides for one request is gathered in \<open>environment\<close>: the bcrypt library the
  process has loaded, the identifier the driver would generate, the salt bcrypt would
  draw and the clock.
\<close>

datatype request =
    PostRegister document
  | PostLogin document
  | PostLoginWithId document
  | GetProducts
  | PostProducts "string option" document
  | PutProduct string document
  | DeleteProduct string
  | GetAllProducts
  | GetOrders
  | GetOrder string
  | PostOrderComplete string
  | GetAdmins
  | GetLogos
  | GetLogo string
  | PostLogoComplete string
  | GetTotal
  | GetSalesStats

record environment =
  bcrypt_lib :: bcrypt
  generated_id :: objectid
  generated_salt :: string
  now :: clock

definition route :: "environment \<Rightarrow> request \<Rightarrow> database \<Rightarrow> response \<times> database" where
  "route env req db =
     (case req of
        PostRegister body \<Rightarrow>
          register (bcrypt_lib env) (generated_id env) (generated_salt env) body db
      | PostLogin body \<Rightarrow> login (bcrypt_lib env) body db
      | PostLoginWithId body \<Rightarrow> loginWithId (generated_id env) body db
      | GetProducts \<Rightarrow> listProducts db
      | PostProducts file body \<Rightarrow> createProduct (generated_id env) file body db
      | PutProduct ident body \<Rightarrow> updateProduct ident body db
      | DeleteProduct ident \<Rightarrow> deleteProduct ident db
      | GetAllProducts \<Rightarrow> listProducts db
      | GetOrders \<Rightarrow> listOrders db
      | GetOrder ident \<Rightarrow> getOrder ident db
      | PostOrderComplete ident \<Rightarrow> completeOrder ident db
      | GetAdmins \<Rightarrow> listAdmins db
      | GetLogos \<Rightarrow> listLogos db
      | GetLogo ident \<Rightarrow> getLogo ident db
      | PostLogoComplete ident \<Rightarrow> approveLogo ident db
      | GetTotal \<Rightarrow> totals db
      | GetSalesStats \<Rightarrow> salesStats (now env) db)"

text \<open>
  \<open>ensureDatabaseInitialized\<close> runs before every route: until the connection has set the
  global \<^verbatim>\<open>database\<close>, each request is answered with status 500.
\<close>

definition ensureDatabaseInitialized ::
  "database option \<Rightarrow> (database \<Rightarrow> response \<times> database) \<Rightarrow> response \<times> database option" where
  "ensureDatabaseInitialized database next_handler =
     (case database of
        None \<Rightarrow> (Message 500 ''Database not initialized. Please try again later.'', None)
      | Some db \<Rightarrow> (case next_handler db of (r, db1) \<Rightarrow> (r, Some db1)))"

definition app :: "environment \<Rightarrow> request \<Rightarrow> database option \<Rightarrow> response \<times> database option" where
  "app env req database = ensureDatabaseInitialized database (route env req)"

text \<open>Requests served one after the other, each with its own environment.\<close>

fun serve :: "(environment \<times> request) list \<Rightarrow> database option \<Rightarrow> database option" where
  "serve [] database = database"
| "serve (er # rest) database = serve rest (snd (app (fst er) (snd er) database))"

section \<open>Notions the properties are stated with\<close>

text \<open>
  A document \<open>d'\<close> stands for the document \<open>d\<close> after some requests and has kept the
  value \<open>v\<close> of field \<open>k\<close>: the same \<^verbatim>\<open>_id\<close>, and the field still reads \<open>v\<close> if it did.
\<close>

definition kept :: "string \<Rightarrow> jsval \<Rightarrow> document \<Rightarrow> document \<Rightarrow> bool" where
  "kept k v d d' = (prop_of d' ''_id'' = prop_of d ''_id'' \<and> (prop_of d k = v \<longrightarrow> prop_of d' k = v))"

text \<open>
  The two terminal values are kept from one database to a later one: the orders and the
  logos are the same documents, position by position, no complete order has another
  status and no approved logo another approval.
\<close>

definition terminal_kept :: "database \<Rightarrow> database \<Rightarrow> bool" where
  "terminal_kept db db' =
     (list_all2 (kept ''status'' (Str ''complete'')) (collection db ''orders'') (collection db' ''orders'')
      \<and> list_all2 (kept ''approval'' (Bool True)) (collection db ''logos'') (collection db' ''logos''))"





section \<open>Example data\<close>

definition example_id :: string where
  "example_id = ''64b7f0c2a1d3e4f5a6b7C8D9''"

definition example_oid :: objectid where
  "example_oid = ObjectId [6, 4, 11, 7, 15, 0, 12, 2, 10, 1, 13, 3, 14, 4, 15, 5, 10, 6, 11, 7, 12, 8, 13, 9]"

definition other_id :: string where
  "other_id = ''000000000000000000000001''"

definition other_oid :: objectid where
  "other_oid = ObjectId [0, 0, 0, 0, 0, 0, 0, 0, 0, 0, 0, 0, 0, 0, 0, 0, 0, 0, 0, 0, 0, 0, 0, 1]"

definition example_order :: document where
  "example_order =
     [(''_id'', Oid example_oid), (''status'', Str ''pending''), (''totalAmount'', Num (Fin 120)),
      (''createdAt'', Date 1700000000000)]"

definition example_logo :: document where
  "example_logo = [(''_id'', Oid example_oid), (''approval'', Bool False), (''price'', Num (Fin 15))]"

definition example_product :: document where
  "example_product =
     [(''_id'', Oid example_oid), (''name'', Str ''Home jersey''), (''category'', Str ''jersey''),
      (''price'', Num (Fin 49)), (''size'', Str ''M''), (''image'', Str ''https://img/home.png''),
      (''description'', Str ''2024 season'')]"

definition second_product :: document where
  "second_product =
     [(''_id'', Oid other_oid), (''name'', Str ''Away jersey''), (''category'', Str ''jersey''),
      (''price'', Num (Fin 45)), (''size'', Str ''L''), (''image'', Str ''https://img/away.png''),
      (''description'', Str [])]"

definition example_db :: database where
  "example_db =
     \<lparr>collections =
        [''orders'' \<mapsto> [example_order],
         ''logos'' \<mapsto> [example_logo],
         ''products'' \<mapsto> [second_product, example_product]],
      calls = []\<rparr>"



definition empty_db :: database where
  "empty_db = \<lparr>collections = Map.empty, calls = []\<rparr>"

definition example_clock :: clock where
  "example_clock = \<lparr>time_now = 1700000500000, month_start = 1698796800000, year_start = 1672531200000\<rparr>"

text \<open>
  A stand-in for the library in the examples. It has bcrypt's interface and reads a
  password as bcrypt does (the bytes of the password and a NUL byte, repeated up to 72
  bytes), but it writes those 72 bytes where bcrypt writes its digest. It is not bcrypt,
  and no property of the server is derived from it: the examples evaluate the handlers
  with it.
\<close>

definition example_key :: "string \<Rightarrow> string" where
  "example_key p = take 72 (concat (replicate 72 (p @ [CHR 0x00])))"

definition example_bcrypt :: bcrypt where
  "example_bcrypt =
     \<lparr>hash_string = (\<lambda>p salt. ''$2a$10$'' @ take 22 (salt @ replicate 22 (CHR ''.'')) @ example_key p),
      compare_string = (\<lambda>p h. Inr (length h = 101 \<and> drop 29 h = example_key p))\<rparr>"

definition example_env :: environment where
  "example_env =
     \<lparr>bcrypt_lib = example_bcrypt, generated_id = other_oid,
      generated_salt = ''N9qo8uLOickgx2ZMRZoMye'', now = example_clock\<rparr>"

definition example_admin :: document where
  "example_admin = [(''name'', Str ''Ada''), (''email'', Str ''ada@shop.test''), (''password'', Str ''s3cret'')]"


definition example_new_product :: document where
  "example_new_product =
     [(''name'', Str ''Scarf''), (''category'', Str ''accessory''), (''price'', Str ''abc''), (''size'', Str ''one'')]"

definition example_update :: document where
  "example_update =
     [(''name'', Str ''Home jersey''), (''category'', Str ''jersey''), (''price'', Str ''52.5''), (''size'', Str ''M'')]"



definition example_requests :: "(environment \<times> request) list" where
  "example_requests =
     [(example_env, PostOrderComplete example_id),
      (example_env, PostRegister example_admin),
      (example_env, PutProduct example_id example_update),
      (example_env, PostLogoComplete example_id),
      (example_env, DeleteProduct example_id),
      (example_env, GetTotal)]"

definition settled_db :: database where
  "settled_db =
     \<lparr>collections =
        [''orders'' \<mapsto> [[(''_id'', Oid example_oid), (''status'', Str ''complete'')]],
         ''logos'' \<mapsto> [[(''_id'', Oid example_oid), (''approval'', Bool True), (''price'', Num (Fin 15))]]],
      calls = []\<rparr>"

section \<open>Facts about the store\<close>

lemma collection_called: "collection (called c db) n = collection db n"
  by (simp add: collection_def called_def)

lemma collections_called: "collections (called c db) = collections db"
  by (simp add: called_def)

lemma collection_write:
  "collection (db\<lparr>collections := (collections db)(c \<mapsto> ds)\<rparr>) n = (if n = c then ds else collection db n)"
  by (simp add: collection_def)

lemma list_ex_find: "list_ex P xs \<longleftrightarrow> find P xs \<noteq> None"
  by (induction xs) auto

lemma find_holds: "find P xs = Some x \<Longrightarrow> P x"
  by (induction xs) (auto split: if_splits)

lemma find_update_first:
  "(\<And>d. P d \<Longrightarrow> P (f d)) \<Longrightarrow> find P (update_first P f ds) = map_option f (find P ds)"
  by (induction ds) auto

lemma update_first_idem:
  "(\<And>d. P d \<Longrightarrow> P (f d)) \<Longrightarrow> (\<And>d. f (f d) = f d) \<Longrightarrow>
   update_first P f (update_first P f ds) = update_first P f ds"
  by (induction ds) auto

lemma map_of_apply_set1: "map_of (apply_set [(k, v)] d) = (map_of d)(k \<mapsto> v)"
  by (simp add: apply_set_def AList.update_conv')

lemma apply_set1_idem: "apply_set [(k, v)] (apply_set [(k, v)] d) = apply_set [(k, v)] d"
  by (simp add: apply_set_def)

lemma matches_apply_set1: "k \<noteq> fst q \<Longrightarrow> matches q (apply_set [(k, v)] d) = matches q d"
  by (simp add: matches_def map_of_apply_set1)

lemma prop_of_apply_set1: "prop_of (apply_set [(k, v)] d) k = v"
  by (simp add: prop_of_def map_of_apply_set1)

lemma new_ObjectId_valid: "new_ObjectId s = Inr oid \<Longrightarrow> isValid s"
  by (simp add: new_ObjectId_def split: if_splits)

lemma example_id_oid: "new_ObjectId example_id = Inr example_oid"
  by (simp add: new_ObjectId_def isValid_def example_id_def example_oid_def is_hex_def
      hex_val_def is_digit_def)

lemma other_id_oid: "new_ObjectId other_id = Inr other_oid"
  by (simp add: new_ObjectId_def isValid_def other_id_def other_oid_def is_hex_def
      hex_val_def is_digit_def)

lemma example_orders: "collection example_db ''orders'' = [example_order]"
  by (simp add: collection_def example_db_def)


lemma example_products: "collection example_db ''products'' = [second_product, example_product]"
  by (simp add: collection_def example_db_def)

section \<open>Orders\<close>

text \<open>
  C1. Let \<open>ident\<close> be a well-formed identifier that matches an order. Then
  \<open>completeOrder\<close> succeeds; \<open>getOrder\<close> on the resulting store answers with that
  identifier and the status \<^verbatim>\<open>complete\<close>; a second \<open>completeOrder\<close> succeeds as well and
  leaves every collection as the first call left it.
\<close>

theorem completeOrder_idempotent:
  assumes "new_ObjectId ident = Inr oid"
    and "find (matches (''_id'', Oid oid)) (collection db ''orders'') = Some order"
  shows "fst (completeOrder ident db) = Message 200 ''Order status updated to complete''
       \<and> fst (getOrder ident (snd (completeOrder ident db))) = OrderView (Oid oid) (Str ''complete'')
       \<and> fst (completeOrder ident (snd (completeOrder ident db)))
           = Message 200 ''Order status updated to complete''
       \<and> collections (snd (completeOrder ident (snd (completeOrder ident db))))
           = collections (snd (completeOrder ident db))"
proof -
  let ?q = "(''_id'', Oid oid)"
  let ?f = "apply_set [(''status'', Str ''complete'')]"
  let ?ds = "collection db ''orders''"
  let ?db1 = "called (UpdateOne ''orders'')
                (db\<lparr>collections := (collections db)(''orders'' \<mapsto> update_first (matches ?q) ?f ?ds)\<rparr>)"
  have valid: "isValid ident"
    using assms(1) by (rule new_ObjectId_valid)
  have keep: "\<And>d. matches ?q d \<Longrightarrow> matches ?q (?f d)"
    by (simp add: matches_apply_set1)
  have ex: "list_ex (matches ?q) ?ds"
    using assms(2) by (simp add: list_ex_find)
  have first_call: "completeOrder ident db = (Message 200 ''Order status updated to complete'', ?db1)"
    using valid assms(1) ex by (simp add: completeOrder_def updateOne_def)
  have orders1: "collection ?db1 ''orders'' = update_first (matches ?q) ?f ?ds"
    by (simp add: collection_called collection_write)
  have found: "find (matches ?q) (collection ?db1 ''orders'') = Some (?f order)"
    using assms(2) keep by (simp add: orders1 find_update_first)
  have same_id: "prop_of (?f order) ''_id'' = Oid oid"
    using find_holds [OF assms(2)] by (simp add: matches_def prop_of_def map_of_apply_set1)
  have read_back: "fst (getOrder ident ?db1) = OrderView (Oid oid) (Str ''complete'')"
    using valid assms(1) found same_id by (simp add: getOrder_def findOne_def prop_of_apply_set1)
  have ex1: "list_ex (matches ?q) (collection ?db1 ''orders'')"
    using found by (simp add: list_ex_find)
  have idem: "update_first (matches ?q) ?f (update_first (matches ?q) ?f ?ds)
                = update_first (matches ?q) ?f ?ds"
    by (rule update_first_idem) (simp_all add: matches_apply_set1 apply_set1_idem)
  have second_call: "fst (completeOrder ident ?db1) = Message 200 ''Order status updated to complete''"
    using valid assms(1) ex1 by (simp add: completeOrder_def updateOne_def)
  have same_store: "collections (snd (completeOrder ident ?db1)) = collections ?db1"
    using valid assms(1) ex1 idem
    by (simp add: completeOrder_def updateOne_def orders1 collections_called)
  show ?thesis
    using first_call read_back second_call same_store by simp
qed

theorem completeOrder_idempotent_witness:
  "new_ObjectId example_id = Inr example_oid
   \<and> find (matches (''_id'', Oid example_oid)) (collection example_db ''orders'') = Some example_order
   \<and> fst (completeOrder example_id example_db) = Message 200 ''Order status updated to complete''
   \<and> fst (getOrder example_id (snd (completeOrder example_id example_db)))
       = OrderView (Oid example_oid) (Str ''complete'')
   \<and> fst (completeOrder example_id (snd (completeOrder example_id example_db)))
       = Message 200 ''Order status updated to complete''
   \<and> collections (snd (completeOrder example_id (snd (completeOrder example_id example_db))))
       = collections (snd (completeOrder example_id example_db))"
proof -
  have found: "find (matches (''_id'', Oid example_oid)) (collection example_db ''orders'') = Some example_order"
    by (simp add: example_orders example_order_def matches_def)
  show ?thesis
    using completeOrder_idempotent [OF example_id_oid found] example_id_oid found by simp
qed

text \<open>
  C5. An identifier that is not well formed is answered with status 400 and the store is
  returned as it was given, its record of round trips included: no call reached it. A
  well-formed identifier that matches an order is answered with the \<^verbatim>\<open>_id\<close> and the
  \<^verbatim>\<open>status\<close> of that order and nothing else of it (a response \<open>OrderView\<close> holds these
  two values only), after one read and no write.
\<close>

theorem getOrder_contract:
  "(\<not> isValid ident \<longrightarrow> getOrder ident db = (Message 400 ''Invalid order ID format'', db))
   \<and> (new_ObjectId ident = Inr oid
        \<and> find (matches (''_id'', Oid oid)) (collection db ''orders'') = Some order
      \<longrightarrow> getOrder ident db
            = (OrderView (Oid oid) (prop_of order ''status''), called (FindOne ''orders'') db))"
proof (intro conjI impI)
  assume "\<not> isValid ident"
  then show "getOrder ident db = (Message 400 ''Invalid order ID format'', db)"
    by (simp add: getOrder_def)
next
  assume h: "new_ObjectId ident = Inr oid
      \<and> find (matches (''_id'', Oid oid)) (collection db ''orders'') = Some order"
  then have made: "new_ObjectId ident = Inr oid"
    and found: "find (matches (''_id'', Oid oid)) (collection db ''orders'') = Some order"
    by simp_all
  have valid: "isValid ident"
    using made by (rule new_ObjectId_valid)
  have "matches (''_id'', Oid oid) order"
    using found by (rule find_holds)
  then have "prop_of order ''_id'' = Oid oid"
    by (simp add: matches_def prop_of_def)
  then show "getOrder ident db
      = (OrderView (Oid oid) (prop_of order ''status''), called (FindOne ''orders'') db)"
    using made found valid by (simp add: getOrder_def findOne_def)
qed

theorem getOrder_contract_witness:
  "\<not> isValid ''not-an-id''
   \<and> getOrder ''not-an-id'' example_db = (Message 400 ''Invalid order ID format'', example_db)
   \<and> new_ObjectId example_id = Inr example_oid
   \<and> find (matches (''_id'', Oid example_oid)) (collection example_db ''orders'') = Some example_order
   \<and> getOrder example_id example_db
       = (OrderView (Oid example_oid) (Str ''pending''), called (FindOne ''orders'') example_db)"
proof -
  have bad: "\<not> isValid ''not-an-id''"
    by (simp add: isValid_def)
  have found: "find (matches (''_id'', Oid example_oid)) (collection example_db ''orders'') = Some example_order"
    by (simp add: example_orders example_order_def matches_def)
  have status: "prop_of example_order ''status'' = Str ''pending''"
    by (simp add: example_order_def prop_of_def)
  show ?thesis
    using getOrder_contract [of "''not-an-id''" example_db example_oid example_order]
      getOrder_contract [of example_id example_db example_oid example_order]
      bad found status example_id_oid
    by simp
qed

section \<open>Reporting\<close>

text \<open>
  C8. Whatever the store holds and whatever the clock says, the \<^verbatim>\<open>salesByMonth\<close> field of
  the sales statistics is the same series of twelve numbers.
\<close>

theorem salesStats_series_fixed:
  "salesByMonth (fst (salesStats clk db))
     = Some [3000, 4200, 3500, 5200, 6000, 7200, 8000, 8500, 9000, 9500, 10000, 11000]"
  by (simp add: salesStats_def salesByMonth_def aggregate_def)

theorem salesStats_series_fixed_witness:
  "salesByMonth (fst (salesStats example_clock example_db))
     = Some [3000, 4200, 3500, 5200, 6000, 7200, 8000, 8500, 9000, 9500, 10000, 11000]
   \<and> salesByMonth (fst (salesStats example_clock empty_db))
     = Some [3000, 4200, 3500, 5200, 6000, 7200, 8000, 8500, 9000, 9500, 10000, 11000]
   \<and> length (the (salesByMonth (fst (salesStats example_clock example_db)))) = 12"
  using salesStats_series_fixed [of example_clock example_db]
    salesStats_series_fixed [of example_clock empty_db]
  by simp










section \<open>Catalog\<close>

lemma find_split:
  "find P xs = Some d \<Longrightarrow> \<exists>pre post. xs = pre @ d # post \<and> \<not> list_ex P pre"
proof (induction xs)
  case Nil
  then show ?case by simp
next
  case (Cons x xs)
  show ?case
  proof (cases "P x")
    case True
    with Cons.prems have "x # xs = [] @ d # xs \<and> \<not> list_ex P []"
      by simp
    then show ?thesis by blast
  next
    case False
    with Cons obtain pre post where "xs = pre @ d # post" and "\<not> list_ex P pre"
      by auto
    with False have "x # xs = (x # pre) @ d # post \<and> \<not> list_ex P (x # pre)"
      by simp
    then show ?thesis by blast
  qed
qed

lemma remove_first_split:
  "\<not> list_ex P pre \<Longrightarrow> P d \<Longrightarrow> remove_first P (pre @ d # post) = pre @ post"
  by (induction pre) auto

text \<open>
  C6. Let \<open>ident\<close> be a well-formed identifier. When no product has it, \<open>deleteProduct\<close>
  answers 404 and the store has seen one call and no change. When \<open>d\<close> is the product
  that has it, \<open>deleteProduct\<close> answers 200, the products are the ones before and after
  \<open>d\<close>, in the same order, and every other collection is as before.
\<close>

theorem deleteProduct_contract:
  assumes "new_ObjectId ident = Inr oid"
  shows "(find (matches (''_id'', Oid oid)) (collection db ''products'') = None
          \<longrightarrow> deleteProduct ident db
                = (Message 404 ''Product not found'', called (DeleteOne ''products'') db))
       \<and> (find (matches (''_id'', Oid oid)) (collection db ''products'') = Some d
          \<longrightarrow> fst (deleteProduct ident db) = Message 200 ''Product deleted successfully''
              \<and> (\<exists>pre post. collection db ''products'' = pre @ d # post
                    \<and> \<not> list_ex (matches (''_id'', Oid oid)) pre
                    \<and> collection (snd (deleteProduct ident db)) ''products'' = pre @ post)
              \<and> (\<forall>c. c \<noteq> ''products''
                    \<longrightarrow> collections (snd (deleteProduct ident db)) c = collections db c))"
proof (intro conjI impI)
  assume "find (matches (''_id'', Oid oid)) (collection db ''products'') = None"
  then show "deleteProduct ident db
      = (Message 404 ''Product not found'', called (DeleteOne ''products'') db)"
    using assms by (simp add: deleteProduct_def deleteOne_def list_ex_find)
next
  let ?q = "(''_id'', Oid oid)"
  let ?db1 = "called (DeleteOne ''products'')
                (db\<lparr>collections := (collections db)
                   (''products'' \<mapsto> remove_first (matches ?q) (collection db ''products''))\<rparr>)"
  assume found: "find (matches ?q) (collection db ''products'') = Some d"
  then have ex: "list_ex (matches ?q) (collection db ''products'')"
    by (simp add: list_ex_find)
  have run: "deleteProduct ident db = (Message 200 ''Product deleted successfully'', ?db1)"
    using assms ex by (simp add: deleteProduct_def deleteOne_def)
  show "fst (deleteProduct ident db) = Message 200 ''Product deleted successfully''"
    using run by simp
  from find_split [OF found] obtain pre post
    where split: "collection db ''products'' = pre @ d # post"
      and before: "\<not> list_ex (matches ?q) pre"
    by blast
  have "remove_first (matches ?q) (collection db ''products'') = pre @ post"
    using split before find_holds [OF found] by (simp add: remove_first_split)
  then have "collection (snd (deleteProduct ident db)) ''products'' = pre @ post"
    using run by (simp add: collection_called collection_write)
  with split before
  show "\<exists>pre post. collection db ''products'' = pre @ d # post
      \<and> \<not> list_ex (matches ?q) pre
      \<and> collection (snd (deleteProduct ident db)) ''products'' = pre @ post"
    by blast
  show "\<forall>c. c \<noteq> ''products''
      \<longrightarrow> collections (snd (deleteProduct ident db)) c = collections db c"
    using run by (simp add: collections_called)
qed

theorem deleteProduct_contract_witness:
  "new_ObjectId example_id = Inr example_oid
   \<and> find (matches (''_id'', Oid example_oid)) (collection empty_db ''products'') = None
   \<and> deleteProduct example_id empty_db
       = (Message 404 ''Product not found'', called (DeleteOne ''products'') empty_db)
   \<and> find (matches (''_id'', Oid example_oid)) (collection example_db ''products'') = Some example_product
   \<and> fst (deleteProduct example_id example_db) = Message 200 ''Product deleted successfully''
   \<and> collection (snd (deleteProduct example_id example_db)) ''products'' = [second_product]
   \<and> collections (snd (deleteProduct example_id example_db)) ''orders'' = collections example_db ''orders''"
proof -
  have none: "find (matches (''_id'', Oid example_oid)) (collection empty_db ''products'') = None"
    by (simp add: collection_def empty_db_def)
  have some: "find (matches (''_id'', Oid example_oid)) (collection example_db ''products'')
      = Some example_product"
    by (simp add: example_products second_product_def example_product_def matches_def
        example_oid_def other_oid_def)
  have left: "collection (snd (deleteProduct example_id example_db)) ''products'' = [second_product]"
    using example_id_oid
    by (simp add: deleteProduct_def deleteOne_def example_products collection_called collection_write
        second_product_def example_product_def matches_def example_oid_def other_oid_def)
  show ?thesis
    using deleteProduct_contract [OF example_id_oid, of empty_db example_product]
      deleteProduct_contract [OF example_id_oid, of example_db example_product]
      example_id_oid none some left
    by simp
qed

lemma parseFloat_abc: "parseFloat_string ''abc'' = NaN"
  by (simp add: parseFloat_string_def unsigned_literal_def is_space_def is_digit_def)

lemma map_of_apply_set:
  "map_of (apply_set sets d) k
     = (case map_of (rev sets) k of None \<Rightarrow> map_of d k | Some v \<Rightarrow> Some v)"
proof (induction sets arbitrary: d)
  case Nil
  then show ?case by (simp add: apply_set_def)
next
  case (Cons kv sets)
  have step: "apply_set (kv # sets) d = apply_set sets (AList.update (fst kv) (snd kv) d)"
    by (simp add: apply_set_def)
  show ?case
    unfolding step Cons.IH
    by (cases kv) (simp add: AList.update_conv' map_add_def split: option.split)
qed

text \<open>
  C9. A request with a name, a category and a size, the price \<^verbatim>\<open>"abc"\<close> and an
  uploaded image is answered with the product (status 201), when the store accepts the
  generated identifier. The product shown and the document appended to the collection
  both carry that identifier and the price \<open>NaN\<close>.
\<close>

theorem createProduct_stores_NaN:
  assumes "truthy (prop_of body ''name'')"
    and "truthy (prop_of body ''category'')"
    and "truthy (prop_of body ''size'')"
    and "prop_of body ''price'' = Str ''abc''"
    and "\<not> list_ex (matches (''_id'', Oid oid)) (collection db ''products'')"
  shows "\<exists>product stored.
           fst (createProduct oid (Some path) body db) = ProductAdded product
         \<and> prop_of product ''price'' = Num NaN
         \<and> prop_of product ''_id'' = Oid oid
         \<and> collection (snd (createProduct oid (Some path) body db)) ''products''
             = collection db ''products'' @ [stored]
         \<and> prop_of stored ''price'' = Num NaN
         \<and> prop_of stored ''_id'' = Oid oid
         \<and> map_of stored = map_of product"
proof -
  let ?new = "[(''name'', prop_of body ''name''),
               (''category'', prop_of body ''category''),
               (''price'', Num NaN),
               (''size'', prop_of body ''size''),
               (''image'', Str path),
               (''description'', or_else (prop_of body ''description'') (Str []))]"
  let ?product = "?new @ [(''_id'', Oid oid)]"
  let ?stored = "(''_id'', Oid oid) # ?new"
  let ?db1 = "called (InsertOne ''products'')
                (db\<lparr>collections := (collections db)
                   (''products'' \<mapsto> collection db ''products'' @ [?stored])\<rparr>)"
  have run: "createProduct oid (Some path) body db = (ProductAdded ?product, ?db1)"
    using assms by (simp add: createProduct_def insertOne_def parseFloat_abc Let_def)
  have "fst (createProduct oid (Some path) body db) = ProductAdded ?product"
    using run by simp
  moreover have "prop_of ?product ''price'' = Num NaN" and "prop_of ?product ''_id'' = Oid oid"
    by (simp_all add: prop_of_def)
  moreover have "collection (snd (createProduct oid (Some path) body db)) ''products''
      = collection db ''products'' @ [?stored]"
    using run by (simp add: collection_called collection_write)
  moreover have "prop_of ?stored ''price'' = Num NaN" and "prop_of ?stored ''_id'' = Oid oid"
    by (simp_all add: prop_of_def)
  moreover have "map_of ?stored = map_of ?product"
    by (rule ext) simp
  ultimately show ?thesis
    by blast
qed

theorem createProduct_stores_NaN_witness:
  "truthy (prop_of example_new_product ''name'')
   \<and> truthy (prop_of example_new_product ''category'')
   \<and> truthy (prop_of example_new_product ''size'')
   \<and> prop_of example_new_product ''price'' = Str ''abc''
   \<and> \<not> list_ex (matches (''_id'', Oid example_oid)) (collection empty_db ''products'')
   \<and> (\<exists>product stored.
           fst (createProduct example_oid (Some ''https://img/scarf.png'') example_new_product empty_db)
             = ProductAdded product
         \<and> prop_of product ''price'' = Num NaN
         \<and> prop_of product ''_id'' = Oid example_oid
         \<and> collection (snd (createProduct example_oid (Some ''https://img/scarf.png'')
                               example_new_product empty_db)) ''products''
             = collection empty_db ''products'' @ [stored]
         \<and> prop_of stored ''price'' = Num NaN
         \<and> prop_of stored ''_id'' = Oid example_oid
         \<and> map_of stored = map_of product)"
proof -
  have fields: "truthy (prop_of example_new_product ''name'')"
    "truthy (prop_of example_new_product ''category'')"
    "truthy (prop_of example_new_product ''size'')"
    "prop_of example_new_product ''price'' = Str ''abc''"
    by (simp_all add: example_new_product_def prop_of_def)
  have fresh: "\<not> list_ex (matches (''_id'', Oid example_oid)) (collection empty_db ''products'')"
    by (simp add: collection_def empty_db_def)
  show ?thesis
    using createProduct_stores_NaN [OF fields fresh, of "''https://img/scarf.png''"] fields fresh
    by simp
qed

text \<open>
  C10. Let \<open>ident\<close> be the identifier of an existing product and let the body hold the
  required fields and no \<^verbatim>\<open>image\<close>. Then \<open>updateProduct\<close> succeeds, and the product read
  back under that identifier has the image \<^verbatim>\<open>null\<close>, whatever it was before; if the body
  holds no \<^verbatim>\<open>description\<close> either, the description read back is the empty string.
\<close>

theorem updateProduct_overwrites_image:
  assumes "new_ObjectId ident = Inr oid"
    and "find (matches (''_id'', Oid oid)) (collection db ''products'') = Some old"
    and "truthy (prop_of body ''name'')"
    and "truthy (prop_of body ''category'')"
    and "truthy (prop_of body ''price'')"
    and "truthy (prop_of body ''size'')"
    and "prop_of body ''image'' = Undefined"
  shows "\<exists>updated d.
           fst (updateProduct ident body db) = ProductUpdated updated
         \<and> prop_of updated ''image'' = Null
         \<and> find (matches (''_id'', Oid oid))
              (collection (snd (updateProduct ident body db)) ''products'') = Some d
         \<and> prop_of d ''image'' = Null
         \<and> (prop_of body ''description'' = Undefined \<longrightarrow> prop_of d ''description'' = Str [])"
proof -
  let ?q = "(''_id'', Oid oid)"
  let ?sets = "[(''name'', prop_of body ''name''),
                (''category'', prop_of body ''category''),
                (''price'', Num (parseFloat (prop_of body ''price''))),
                (''size'', prop_of body ''size''),
                (''image'', Null),
                (''description'', or_else (prop_of body ''description'') (Str []))]"
  let ?db1 = "called (UpdateOne ''products'')
                (db\<lparr>collections := (collections db)
                   (''products'' \<mapsto> update_first (matches ?q) (apply_set ?sets)
                                        (collection db ''products''))\<rparr>)"
  have ex: "list_ex (matches ?q) (collection db ''products'')"
    using assms(2) by (simp add: list_ex_find)
  have image: "or_else (prop_of body ''image'') Null = Null"
    using assms(7) by (simp add: or_else_def)
  have run: "updateProduct ident body db = (ProductUpdated ?sets, ?db1)"
    using assms(1,3,4,5,6) ex image by (simp add: updateProduct_def updateOne_def Let_def)
  have keep: "\<And>d. matches ?q d \<Longrightarrow> matches ?q (apply_set ?sets d)"
    by (simp add: matches_def map_of_apply_set)
  have found: "find (matches ?q) (collection ?db1 ''products'') = Some (apply_set ?sets old)"
    using assms(2) keep by (simp add: collection_called collection_write find_update_first)
  have shown: "prop_of ?sets ''image'' = Null"
    by (simp add: prop_of_def)
  have stored: "prop_of (apply_set ?sets old) ''image'' = Null"
    by (simp add: prop_of_def map_of_apply_set)
  have described: "prop_of body ''description'' = Undefined
      \<longrightarrow> prop_of (apply_set ?sets old) ''description'' = Str []"
    by (simp add: prop_of_def map_of_apply_set or_else_def)
  show ?thesis
    using run found shown stored described by simp
qed

theorem updateProduct_overwrites_image_witness:
  "new_ObjectId example_id = Inr example_oid
   \<and> find (matches (''_id'', Oid example_oid)) (collection example_db ''products'') = Some example_product
   \<and> prop_of example_product ''image'' = Str ''https://img/home.png''
   \<and> truthy (prop_of example_update ''name'')
   \<and> truthy (prop_of example_update ''category'')
   \<and> truthy (prop_of example_update ''price'')
   \<and> truthy (prop_of example_update ''size'')
   \<and> prop_of example_update ''image'' = Undefined
   \<and> prop_of example_update ''description'' = Undefined
   \<and> (\<exists>updated d.
           fst (updateProduct example_id example_update example_db) = ProductUpdated updated
         \<and> prop_of updated ''image'' = Null
         \<and> find (matches (''_id'', Oid example_oid))
              (collection (snd (updateProduct example_id example_update example_db)) ''products'') = Some d
         \<and> prop_of d ''image'' = Null
         \<and> prop_of d ''description'' = Str [])"
proof -
  have found: "find (matches (''_id'', Oid example_oid)) (collection example_db ''products'')
      = Some example_product"
    by (simp add: example_products second_product_def example_product_def matches_def
        example_oid_def other_oid_def)
  have before: "prop_of example_product ''image'' = Str ''https://img/home.png''"
    by (simp add: example_product_def prop_of_def)
  have fields: "truthy (prop_of example_update ''name'')"
    "truthy (prop_of example_update ''category'')"
    "truthy (prop_of example_update ''price'')"
    "truthy (prop_of example_update ''size'')"
    "prop_of example_update ''image'' = Undefined"
    by (simp_all add: example_update_def prop_of_def)
  have omitted: "prop_of example_update ''description'' = Undefined"
    by (simp add: example_update_def prop_of_def)
  show ?thesis
    using updateProduct_overwrites_image [OF example_id_oid found fields]
      example_id_oid found before fields omitted
    by simp
qed

section \<open>Credentials\<close>














section \<open>Terminal values\<close>

lemma kept_same: "kept k v d d"
  by (simp add: kept_def)

lemma kept_trans: "kept k v d d' \<Longrightarrow> kept k v d' d'' \<Longrightarrow> kept k v d d''"
  by (simp add: kept_def)

lemma kept_set: "k \<noteq> ''_id'' \<Longrightarrow> kept k v d (apply_set [(k, v)] d)"
  by (simp add: kept_def prop_of_def map_of_apply_set1)

lemma list_all2_kept_same: "list_all2 (kept k v) ds ds"
  by (simp add: list_all2_same kept_same)

lemma list_all2_update_first:
  "(\<And>d. R d d) \<Longrightarrow> (\<And>d. R d (f d)) \<Longrightarrow> list_all2 R ds (update_first P f ds)"
  by (induction ds) (simp_all add: list_all2_same)

lemma terminal_kept_same:
  "collection db' ''orders'' = collection db ''orders'' \<Longrightarrow>
   collection db' ''logos'' = collection db ''logos'' \<Longrightarrow> terminal_kept db db'"
  by (simp add: terminal_kept_def list_all2_kept_same)

lemma list_all2_kept_trans:
  assumes "list_all2 (kept k v) xs ys" and "list_all2 (kept k v) ys zs"
  shows "list_all2 (kept k v) xs zs"
proof (rule list_all2_trans [OF _ assms])
  fix a b c
  assume "kept k v a b" and "kept k v b c"
  then show "kept k v a c" by (rule kept_trans)
qed

lemma terminal_kept_trans: "terminal_kept a b \<Longrightarrow> terminal_kept b c \<Longrightarrow> terminal_kept a c"
  unfolding terminal_kept_def
  by (blast intro: list_all2_kept_trans)

lemma register_terminal: "terminal_kept db (snd (register bc oid salt body db))"
  by (rule terminal_kept_same)
    (simp_all add: register_def Let_def findOne_def insertOne_def collection_called
      collection_write split: option.split sum.split)

lemma login_terminal: "terminal_kept db (snd (login bc body db))"
  by (rule terminal_kept_same)
    (simp_all add: login_def Let_def findOne_def collection_called split: option.split sum.split)

lemma loginWithId_terminal: "terminal_kept db (snd (loginWithId oid body db))"
proof (cases "ObjectId_of oid (prop_of body ''id'')")
  case (Inl e)
  then show ?thesis
    by (intro terminal_kept_same; simp add: loginWithId_def Let_def)
next
  case (Inr i)
  then show ?thesis
    by (cases "find (matches (''_id'', Oid i)) (collection db ''admin'')";
        intro terminal_kept_same; simp add: loginWithId_def Let_def findOne_def collection_called)
qed

lemma lists_terminal:
  "terminal_kept db (snd (listAdmins db))"
  "terminal_kept db (snd (listProducts db))"
  "terminal_kept db (snd (listOrders db))"
  "terminal_kept db (snd (listLogos db))"
  by (rule terminal_kept_same;
      simp add: listAdmins_def listProducts_def listOrders_def listLogos_def find_all_def
        collection_called)+

lemma createProduct_terminal: "terminal_kept db (snd (createProduct oid file body db))"
  by (rule terminal_kept_same)
    (simp_all add: createProduct_def Let_def insertOne_def collection_called collection_write
      split: option.split)

lemma updateProduct_terminal: "terminal_kept db (snd (updateProduct ident body db))"
  by (rule terminal_kept_same)
    (simp_all add: updateProduct_def Let_def updateOne_def collection_called collection_write
      split: sum.split)

lemma deleteProduct_terminal: "terminal_kept db (snd (deleteProduct ident db))"
  by (rule terminal_kept_same)
    (simp_all add: deleteProduct_def deleteOne_def collection_called collection_write
      split: sum.split)

lemma getOrder_terminal: "terminal_kept db (snd (getOrder ident db))"
  by (rule terminal_kept_same)
    (simp_all add: getOrder_def findOne_def collection_called split: option.split sum.split)

lemma getLogo_terminal: "terminal_kept db (snd (getLogo ident db))"
  by (rule terminal_kept_same)
    (simp_all add: getLogo_def findOne_def collection_called split: option.split sum.split)

lemma completeOrder_terminal: "terminal_kept db (snd (completeOrder orderId db))"
proof -
  have "list_all2 (kept ''status'' (Str ''complete'')) (collection db ''orders'')
      (update_first P (apply_set [(''status'', Str ''complete'')]) (collection db ''orders''))" for P
    by (rule list_all2_update_first) (simp_all add: kept_same kept_set)
  then show ?thesis
    by (simp add: terminal_kept_def completeOrder_def updateOne_def collection_called
        collection_write list_all2_kept_same split: sum.split)
qed

lemma approveLogo_terminal: "terminal_kept db (snd (approveLogo ident db))"
proof -
  have "list_all2 (kept ''approval'' (Bool True)) (collection db ''logos'')
      (update_first P (apply_set [(''approval'', Bool True)]) (collection db ''logos''))" for P
    by (rule list_all2_update_first) (simp_all add: kept_same kept_set)
  then show ?thesis
    by (simp add: terminal_kept_def approveLogo_def updateOne_def collection_called
        collection_write list_all2_kept_same split: sum.split)
qed

lemma totals_terminal: "terminal_kept db (snd (totals db))"
  by (rule terminal_kept_same) (simp_all add: totals_def aggregate_def collection_called)

lemma salesStats_terminal: "terminal_kept db (snd (salesStats clk db))"
  by (rule terminal_kept_same) (simp_all add: salesStats_def aggregate_def collection_called)

lemma route_terminal: "terminal_kept db (snd (route env req db))"
  by (cases req)
    (simp_all add: route_def register_terminal login_terminal loginWithId_terminal
      lists_terminal createProduct_terminal updateProduct_terminal deleteProduct_terminal
      getOrder_terminal getLogo_terminal completeOrder_terminal approveLogo_terminal
      totals_terminal salesStats_terminal)

lemma app_Some: "snd (app env req (Some db)) = Some (snd (route env req db))"
  by (simp add: app_def ensureDatabaseInitialized_def split: prod.splits)

text \<open>
  C2. Serve any requests, one after the other, from any database. The orders and the
  logos afterwards are the same documents, position by position and \<^verbatim>\<open>_id\<close> by
  \<^verbatim>\<open>_id\<close>; every order whose status was \<^verbatim>\<open>complete\<close> has the status \<^verbatim>\<open>complete\<close>, and
  every logo whose approval was \<^verbatim>\<open>true\<close> has the approval \<^verbatim>\<open>true\<close>.
\<close>

theorem terminal_values_kept:
  "\<exists>db'. serve reqs (Some db) = Some db' \<and> terminal_kept db db'"
proof (induction reqs arbitrary: db)
  case Nil
  have "terminal_kept db db"
    by (simp add: terminal_kept_same)
  then show ?case by simp
next
  case (Cons er reqs)
  let ?db1 = "snd (route (fst er) (snd er) db)"
  from Cons.IH [of ?db1] obtain db'
    where rest: "serve reqs (Some ?db1) = Some db'" and later: "terminal_kept ?db1 db'"
    by blast
  have "serve (er # reqs) (Some db) = Some db'"
    using rest by (simp add: app_Some)
  moreover have "terminal_kept db db'"
    using route_terminal later by (rule terminal_kept_trans)
  ultimately show ?case by blast
qed

theorem terminal_values_kept_witness:
  "\<exists>db'. serve example_requests (Some settled_db) = Some db'
      \<and> terminal_kept settled_db db'
      \<and> (\<exists>d l. collection db' ''orders'' = [d] \<and> prop_of d ''status'' = Str ''complete''
            \<and> collection db' ''logos'' = [l] \<and> prop_of l ''approval'' = Bool True)"
proof -
  from terminal_values_kept [of example_requests settled_db] obtain db'
    where served: "serve example_requests (Some settled_db) = Some db'"
      and still: "terminal_kept settled_db db'"
    by blast
  have orders: "collection settled_db ''orders''
      = [[(''_id'', Oid example_oid), (''status'', Str ''complete'')]]"
    and logos: "collection settled_db ''logos''
      = [[(''_id'', Oid example_oid), (''approval'', Bool True), (''price'', Num (Fin 15))]]"
    by (simp_all add: collection_def settled_db_def)
  from still obtain d where "collection db' ''orders'' = [d]"
    and "prop_of d ''status'' = Str ''complete''"
    by (auto simp: terminal_kept_def orders list_all2_Cons1 kept_def prop_of_def)
  moreover from still obtain l where "collection db' ''logos'' = [l]"
    and "prop_of l ''approval'' = Bool True"
    by (auto simp: terminal_kept_def logos list_all2_Cons1 kept_def prop_of_def)
  ultimately show ?thesis
    using served still by blast
qed

end
